theory Spec2Isabelle
  imports Complex_Main
begin

section \<open>Differential pressure flow reference (diffpressure_reference.py)\<close>

text \<open>
  The program computes with Python floats. They are modelled here as exact reals:
  rounding, overflow to infinity, NaN and signed zero are outside this model. What the
  model keeps is every place where the Python raises on a real argument: a float
  division by zero, a zero base with a negative exponent, a square root of a negative
  number, and a negative base with a fractional exponent, whose complex result cannot
  be ordered by \<open>max\<close>.
\<close>

subsection \<open>Python's arithmetic on floats\<close>

datatype py_error = ZeroDivisionError | TypeError | ValueError

definition and_then :: "py_error + 'a \<Rightarrow> ('a \<Rightarrow> py_error + 'b) \<Rightarrow> py_error + 'b" where
  "and_then m f = (case m of Inl e \<Rightarrow> Inl e | Inr v \<Rightarrow> f v)"

definition truediv :: "real \<Rightarrow> real \<Rightarrow> py_error + real" where
  \<comment> \<open>\<open>a / b\<close> on floats raises ZeroDivisionError when \<open>b\<close> is zero.\<close>
  "truediv a b = (if b = 0 then Inl ZeroDivisionError else Inr (a / b))"

definition is_integral :: "real \<Rightarrow> bool" where
  "is_integral y = (y = of_int \<lfloor>y\<rfloor>)"

definition py_pow :: "real \<Rightarrow> real \<Rightarrow> py_error + real" where
  \<comment> \<open>\<open>x ** y\<close> on floats. A zero base with a negative exponent raises
      ZeroDivisionError. A negative base with a fractional exponent gives a complex
      number; in \<open>calc_venturi\<close> every such value flows on through float arithmetic
      (which keeps it complex and non-real) into \<open>max(numerator, 0.0)\<close>, where the
      comparison raises TypeError, so the model raises it at the power.\<close>
  "py_pow x y =
     (if 0 < x then Inr (x powr y)
      else if x = 0 then
        (if y < 0 then Inl ZeroDivisionError else if y = 0 then Inr 1 else Inr 0)
      else if is_integral y then Inr (power_int x \<lfloor>y\<rfloor>)
      else Inl TypeError)"

definition math_sqrt :: "real \<Rightarrow> py_error + real" where
  \<comment> \<open>\<open>math.sqrt\<close> raises ValueError (math domain error) below zero.\<close>
  "math_sqrt x = (if x < 0 then Inl ValueError else Inr (sqrt x))"

definition rel_tol :: real where
  "rel_tol = 1 / 10 ^ 9"

definition abs_tol :: real where
  "abs_tol = 0"

definition isclose :: "real \<Rightarrow> real \<Rightarrow> bool" where
  \<comment> \<open>\<open>math.isclose(a, b)\<close> with its default tolerances.\<close>
  "isclose a b =
     (a = b \<or> \<bar>a - b\<bar> \<le> max (rel_tol * max \<bar>a\<bar> \<bar>b\<bar>) abs_tol)"

subsection \<open>The flow model\<close>

definition numerator :: "real \<Rightarrow> real \<Rightarrow> real \<Rightarrow> real \<Rightarrow> py_error + real" where
  \<comment> \<open>Lines 22 to 30, evaluated left to right as Python does.\<close>
  "numerator kappa tau tau2k beta4 =
     and_then (truediv (kappa * tau2k) (kappa - 1)) (\<lambda>t2.
     and_then (truediv (t2 * (1 - beta4)) (1 - beta4 * tau2k)) (\<lambda>t4.
     and_then (truediv (kappa - 1) kappa) (\<lambda>e2.
     and_then (py_pow tau e2) (\<lambda>tauk.
     truediv (t4 * (1 - tauk)) (1 - tau)))))"

definition mass_flow :: "real \<Rightarrow> real \<Rightarrow> real \<Rightarrow> real \<Rightarrow> real \<Rightarrow> real \<Rightarrow> py_error + real" where
  \<comment> \<open>Lines 31 to 34.\<close>
  "mass_flow dp rho d C beta4 num =
     and_then (math_sqrt (max num 0)) (\<lambda>eps.
     and_then (math_sqrt (max (dp * rho * 2) 0)) (\<lambda>root_term.
     and_then (math_sqrt (max (1 - beta4) (1 / 10 ^ 30))) (\<lambda>s.
     and_then (truediv C s) (\<lambda>q.
     and_then (truediv (q * eps * pi) 4) (\<lambda>r.
     Inr (r * d * d * root_term * 3600))))))"

definition calc_venturi ::
  "real \<Rightarrow> real \<Rightarrow> real \<Rightarrow> real \<Rightarrow> real \<Rightarrow> real \<Rightarrow> real \<Rightarrow> py_error + real" where
  "calc_venturi dp p rho kappa D d C =
     and_then (truediv d D) (\<lambda>beta.
     let beta4 = beta ^ 4 in
     and_then (truediv p (p + dp)) (\<lambda>tau.
     if isclose tau 1 then Inr 0
     else
       and_then (truediv 2 kappa) (\<lambda>e1.
       and_then (py_pow tau e1) (\<lambda>tau2k.
       and_then (numerator kappa tau tau2k beta4) (\<lambda>num.
       mass_flow dp rho d C beta4 num)))))"

definition calc_simplified :: "real \<Rightarrow> real \<Rightarrow> real \<Rightarrow> py_error + real" where
  "calc_simplified dp rho Cv =
     and_then (math_sqrt (max (dp * rho) 0)) (\<lambda>s. Inr (Cv * s))"




subsection \<open>The command line\<close>

text \<open>
  \<open>main\<close> builds an \<open>argparse\<close> parser with two subcommands and calls
  \<open>parser.parse_args()\<close>. The parser itself is Python's standard library, not code
  of this repository; what follows is its algorithm (CPython 3.11, \<open>argparse.py\<close>:
  \<open>_parse_optional\<close>, \<open>_get_option_tuples\<close>, \<open>_parse_known_args\<close>,
  \<open>parse_args\<close>) specialised to the parser that \<open>main\<close> declares: every option
  is either the help flag (no argument) or stores one float, the subparsers take no
  positional argument, and the top-level parser has the single positional \<open>command\<close>.
  Argument strings are ASCII. The conversion \<open>type=float\<close> is a parameter \<open>fl\<close> of
  the model: \<open>fl s = None\<close> stands for \<open>float(s)\<close> raising ValueError.
\<close>

datatype action = Help | Store string

type_synonym option_table = "(string \<times> action) list"

definition top_options :: option_table where
  "top_options = [(''-h'', Help), (''--help'', Help)]"

definition venturi_options :: option_table where
  "venturi_options =
     [(''-h'', Help), (''--help'', Help), (''--dp'', Store ''dp''), (''--p'', Store ''p''),
      (''--rho'', Store ''rho''), (''--kappa'', Store ''kappa''), (''--D'', Store ''D''),
      (''--d'', Store ''d''), (''--C'', Store ''C'')]"

definition simplified_options :: option_table where
  "simplified_options =
     [(''-h'', Help), (''--help'', Help), (''--dp'', Store ''dp''), (''--rho'', Store ''rho''),
      (''--Cv'', Store ''Cv'')]"

datatype usage_error =
    Ambiguous string "string list"
  | ExpectedOneArgument string
  | IgnoredExplicitArgument string string
  | InvalidFloatValue string string
  | InvalidChoice string
  | ArgumentsRequired "string list"
  | UnrecognizedArguments "string list"

datatype parse_exit = UsageError usage_error | HelpExit

text \<open>
  How \<open>_parse_optional\<close> reads one argument string: a positional argument, or an
  option string with the action it selects (none when the parser has no such option)
  and the explicit argument glued to it, if any, with whether an \<open>=\<close> separated them.
\<close>

datatype arg_class = Positional | Optional "action option" string "(bool \<times> string) option"

definition startswith :: "string \<Rightarrow> string \<Rightarrow> bool" where
  "startswith s p = (take (length p) s = p)"

definition partition_eq :: "string \<Rightarrow> string \<times> bool \<times> string" where
  \<comment> \<open>\<open>s.partition('=')\<close>: the text before the first \<open>=\<close>, whether there is one, the text after it.\<close>
  "partition_eq s =
     (takeWhile (\<lambda>c. c \<noteq> CHR ''='') s, CHR ''='' \<in> set s,
      drop 1 (dropWhile (\<lambda>c. c \<noteq> CHR ''='') s))"

definition is_digit :: "char \<Rightarrow> bool" where
  "is_digit c = (c \<in> set ''0123456789'')"

definition negative_number :: "string \<Rightarrow> bool" where
  \<comment> \<open>The matcher \<open>'^-\<bslash>d+$|^-\<bslash>d*\<bslash>.\<bslash>d+$'\<close>; \<open>$\<close> also matches before a final newline.\<close>
  "negative_number s =
     (case s of
        [] \<Rightarrow> False
      | c # r \<Rightarrow>
          c = CHR ''-'' \<and>
          (let body = (if r \<noteq> [] \<and> last r = CHR 0x0A then butlast r else r);
               ip = takeWhile is_digit body;
               rest = dropWhile is_digit body
           in (ip \<noteq> [] \<and> rest = []) \<or>
              (rest \<noteq> [] \<and> hd rest = CHR ''.'' \<and> tl rest \<noteq> [] \<and> list_all is_digit (tl rest))))"

definition get_option_tuples :: "option_table \<Rightarrow> string \<Rightarrow> arg_class list" where
  "get_option_tuples opts s =
     (if s ! 1 = CHR ''-'' then
        (case partition_eq s of (option_prefix, sep, explicit_arg) \<Rightarrow>
           map (\<lambda>(k, a). Optional (Some a) k (if sep then Some (True, explicit_arg) else None))
             (filter (\<lambda>(k, a). startswith k option_prefix) opts))
      else
        concat (map (\<lambda>(k, a).
            if k = take 2 s then [Optional (Some a) k (Some (False, drop 2 s))]
            else if startswith k s then [Optional (Some a) k None]
            else []) opts))"

definition option_string_of :: "arg_class \<Rightarrow> string" where
  "option_string_of c = (case c of Positional \<Rightarrow> [] | Optional a k e \<Rightarrow> k)"

definition parse_optional :: "option_table \<Rightarrow> string \<Rightarrow> usage_error + arg_class" where
  "parse_optional opts s =
     (if s = [] then Inr Positional
      else if hd s \<noteq> CHR ''-'' then Inr Positional
      else if map_of opts s \<noteq> None then Inr (Optional (map_of opts s) s None)
      else if length s = 1 then Inr Positional
      else
        (case partition_eq s of (option_string, sep, explicit_arg) \<Rightarrow>
           if sep \<and> map_of opts option_string \<noteq> None
           then Inr (Optional (map_of opts option_string) option_string (Some (True, explicit_arg)))
           else
             (case get_option_tuples opts s of
                [] \<Rightarrow>
                  if negative_number s then Inr Positional
                  else if CHR '' '' \<in> set s then Inr Positional
                  else Inr (Optional None s None)
              | [t] \<Rightarrow> Inr t
              | t # u # ts \<Rightarrow> Inl (Ambiguous s (map option_string_of (t # u # ts))))))"

text \<open>
  The pattern of the argument strings: \<open>A\<close> for an argument, \<open>O\<close> for an option
  string, \<open>-\<close> for the first \<open>--\<close>, after which everything is an argument.
\<close>

datatype pattern_item = PA | PDash | PO "action option" string "(bool \<times> string) option"

fun classify_all :: "option_table \<Rightarrow> string list \<Rightarrow> usage_error + (string \<times> pattern_item) list" where
  "classify_all opts [] = Inr []"
| "classify_all opts (s # ss) =
     (if s = ''--'' then Inr ((s, PDash) # map (\<lambda>t. (t, PA)) ss)
      else
        (case parse_optional opts s of
           Inl e \<Rightarrow> Inl e
         | Inr c \<Rightarrow>
             (case classify_all opts ss of
                Inl e \<Rightarrow> Inl e
              | Inr cs \<Rightarrow>
                  Inr ((s, (case c of Positional \<Rightarrow> PA | Optional a k e \<Rightarrow> PO a k e)) # cs))))"

text \<open>
  \<open>consume_optional\<close> on a help flag that carries an explicit argument. A long option
  rejects it. The short \<open>-h\<close> takes no argument, so the rest of the string is read as
  further single-dash options; the help action runs unless that reading raises first.
\<close>

fun help_short :: "bool \<Rightarrow> string \<Rightarrow> parse_exit" where
  "help_short sep [] = UsageError (IgnoredExplicitArgument ''-h'' [])"
| "help_short sep (c # cs) =
     (if sep \<or> c = CHR ''-'' then UsageError (IgnoredExplicitArgument ''-h'' (c # cs))
      else if c = CHR ''h'' then
        (case cs of
           [] \<Rightarrow> HelpExit
         | x # xs \<Rightarrow> if x = CHR ''='' then help_short True xs else help_short False cs)
      else HelpExit)"

definition help_action :: "string \<Rightarrow> (bool \<times> string) option \<Rightarrow> parse_exit" where
  "help_action opt explicit =
     (case explicit of
        None \<Rightarrow> HelpExit
      | Some (sep, e) \<Rightarrow>
          if opt ! 1 = CHR ''-'' then UsageError (IgnoredExplicitArgument opt e)
          else help_short sep e)"

text \<open>The namespace of a subparser and the strings it could not place.\<close>

record sub_state =
  stored :: "string \<rightharpoonup> real"
  extras :: "string list"

fun consume :: "(string \<Rightarrow> real option) \<Rightarrow> (string \<times> pattern_item) list \<Rightarrow> sub_state
    \<Rightarrow> parse_exit + sub_state" where
  "consume fl [] st = Inr st"
| "consume fl ((s, PA) # rest) st = consume fl rest (st\<lparr>extras := extras st @ [s]\<rparr>)"
| "consume fl ((s, PDash) # rest) st = consume fl rest (st\<lparr>extras := extras st @ [s]\<rparr>)"
| "consume fl ((s, PO None opt explicit) # rest) st =
     consume fl rest (st\<lparr>extras := extras st @ [s]\<rparr>)"
| "consume fl ((s, PO (Some Help) opt explicit) # rest) st = Inl (help_action opt explicit)"
| "consume fl ((s, PO (Some (Store dest)) opt (Some (sep, e))) # rest) st =
     (case fl e of
        None \<Rightarrow> Inl (UsageError (InvalidFloatValue opt e))
      | Some r \<Rightarrow> consume fl rest (st\<lparr>stored := (stored st)(dest \<mapsto> r)\<rparr>))"
| "consume fl ((s, PO (Some (Store dest)) opt None) # []) st =
     Inl (UsageError (ExpectedOneArgument opt))"
| "consume fl ((s, PO (Some (Store dest)) opt None) # (v, PA) # rest) st =
     (case fl v of
        None \<Rightarrow> Inl (UsageError (InvalidFloatValue opt v))
      | Some r \<Rightarrow> consume fl rest (st\<lparr>stored := (stored st)(dest \<mapsto> r)\<rparr>))"
| "consume fl ((s, PO (Some (Store dest)) opt None) # (v, PDash) # rest) st =
     Inl (UsageError (ExpectedOneArgument opt))"
| "consume fl ((s, PO (Some (Store dest)) opt None) # (v, PO a opt' explicit) # rest) st =
     Inl (UsageError (ExpectedOneArgument opt))"

definition required_options :: "option_table \<Rightarrow> (string \<times> string) list" where
  "required_options opts =
     concat (map (\<lambda>(k, a). case a of Help \<Rightarrow> [] | Store dest \<Rightarrow> [(k, dest)]) opts)"

definition parse_known_args_sub :: "(string \<Rightarrow> real option) \<Rightarrow> option_table \<Rightarrow> string list
    \<Rightarrow> parse_exit + sub_state" where
  "parse_known_args_sub fl opts args =
     (case classify_all opts args of
        Inl e \<Rightarrow> Inl (UsageError e)
      | Inr items \<Rightarrow>
          (case consume fl items \<lparr>stored = Map.empty, extras = []\<rparr> of
             Inl x \<Rightarrow> Inl x
           | Inr st \<Rightarrow>
               (case filter (\<lambda>(k, dest). stored st dest = None) (required_options opts) of
                  [] \<Rightarrow> Inr st
                | m # ms \<Rightarrow> Inl (UsageError (ArgumentsRequired (map fst (m # ms)))))))"

definition subparser :: "string \<Rightarrow> option_table option" where
  "subparser name =
     (if name = ''venturi'' then Some venturi_options
      else if name = ''simplified'' then Some simplified_options
      else None)"

text \<open>A successful parse: the subcommand and the values stored for its flags.\<close>

record namespace =
  command :: string
  attrs :: "string \<rightharpoonup> real"

fun consume_top :: "(string \<Rightarrow> real option) \<Rightarrow> (string \<times> pattern_item) list \<Rightarrow> string list
    \<Rightarrow> parse_exit + namespace" where
  "consume_top fl [] ex = Inl (UsageError (ArgumentsRequired [''command'']))"
| "consume_top fl ((s, PO None opt explicit) # rest) ex = consume_top fl rest (ex @ [s])"
| "consume_top fl ((s, PO (Some a) opt explicit) # rest) ex = Inl (help_action opt explicit)"
| "consume_top fl ((s, PDash) # []) ex = Inl (UsageError (ArgumentsRequired [''command'']))"
| "consume_top fl ((s, PDash) # r # rest) ex = Inl (UsageError (InvalidChoice s))"
| "consume_top fl ((s, PA) # rest) ex =
     (case subparser s of
        None \<Rightarrow> Inl (UsageError (InvalidChoice s))
      | Some opts \<Rightarrow>
          (case parse_known_args_sub fl opts (map fst rest) of
             Inl x \<Rightarrow> Inl x
           | Inr st \<Rightarrow>
               (case ex @ extras st of
                  [] \<Rightarrow> Inr \<lparr>command = s, attrs = stored st\<rparr>
                | u # us \<Rightarrow> Inl (UsageError (UnrecognizedArguments (u # us))))))"

definition parse_args :: "(string \<Rightarrow> real option) \<Rightarrow> string list \<Rightarrow> parse_exit + namespace" where
  "parse_args fl argv =
     (case classify_all top_options argv of
        Inl e \<Rightarrow> Inl (UsageError e)
      | Inr items \<Rightarrow> consume_top fl items [])"















text \<open>
  \<open>float\<close> on plain decimal literals (a sign, digits, at most one point), the instance
  of the parameter \<open>fl\<close> in the examples. The other spellings that \<open>float\<close> accepts
  (exponents, underscores, surrounding blanks, \<open>inf\<close>, \<open>nan\<close>) are not covered by it.
\<close>

definition digits_value :: "string \<Rightarrow> nat" where
  "digits_value ds = foldl (\<lambda>acc c. 10 * acc + (of_char c - 48)) 0 ds"

definition float_of_decimal :: "string \<Rightarrow> real option" where
  "float_of_decimal s =
     (let neg = (s \<noteq> [] \<and> hd s = CHR ''-'');
          body = (if s \<noteq> [] \<and> (hd s = CHR ''-'' \<or> hd s = CHR ''+'') then tl s else s);
          ip = takeWhile is_digit body;
          rest = dropWhile is_digit body;
          fp = drop 1 rest
      in if (rest \<noteq> [] \<and> hd rest \<noteq> CHR ''.'') \<or> \<not> list_all is_digit fp \<or> (ip = [] \<and> fp = [])
         then None
         else Some ((if neg then - 1 else 1)
                * (real (digits_value ip) + real (digits_value fp) / 10 ^ length fp)))"

subsection \<open>Evaluation lemmas\<close>

lemma isclose_refl: "isclose a a"
  by (simp add: isclose_def)

lemma and_then_Inr: "and_then (Inr v) f = f v"
  by (simp add: and_then_def)


lemma truediv_Inr: "b \<noteq> 0 \<Longrightarrow> truediv a b = Inr (a / b)"
  by (simp add: truediv_def)

















subsection \<open>The simplified model\<close>

text \<open>
  C3: \<open>calc_simplified(dp, rho, Cv)\<close> never raises; it is \<open>Cv * sqrt(dp * rho)\<close>
  when \<open>dp * rho\<close> is not negative and 0 when it is.
\<close>

theorem calc_simplified_value:
  "(0 \<le> dp * rho \<longrightarrow> calc_simplified dp rho Cv = Inr (Cv * sqrt (dp * rho))) \<and>
   (dp * rho < 0 \<longrightarrow> calc_simplified dp rho Cv = Inr 0)"
  by (simp add: calc_simplified_def and_then_def math_sqrt_def max_def)

theorem calc_simplified_value_witness:
  "(0::real) \<le> 2 * 8 \<and> calc_simplified 2 8 3 = Inr 12 \<and>
   (-2::real) * 8 < 0 \<and> calc_simplified (-2) 8 3 = Inr 0"
proof -
  have "sqrt (16::real) = 4"
    using real_sqrt_abs [of 4] by simp
  then show ?thesis
    using calc_simplified_value [of 2 8 3] calc_simplified_value [of "-2" 8 3]
    by simp
qed

text \<open>
  C10: \<open>calc_simplified\<close> is symmetric in its first two arguments, which it reads
  only through their product.
\<close>

theorem calc_simplified_symmetric:
  "calc_simplified dp rho Cv = calc_simplified rho dp Cv"
  by (simp add: calc_simplified_def mult.commute)

subsection \<open>The Venturi model: where it returns\<close>







text \<open>
  C4: with \<open>dp = 0\<close> and valid \<open>p\<close>, \<open>kappa\<close>, \<open>D\<close>, \<open>d\<close> the pressure
  ratio is exactly 1, the guard fires and \<open>calc_venturi\<close> returns 0.
\<close>

theorem calc_venturi_zero_dp:
  assumes "0 < p" "1 < kappa" "0 < d" "d < D"
  shows "isclose (p / (p + 0)) 1 \<and> calc_venturi 0 p rho kappa D d C = Inr 0"
  using assms
  by (simp add: calc_venturi_def truediv_Inr and_then_Inr isclose_refl Let_def)

theorem calc_venturi_zero_dp_witness:
  "(0::real) < 101325 \<and> (1::real) < 14 / 10 \<and> (0::real) < 5 / 100 \<and> (5 / 100 :: real) < 1 / 10 \<and>
   calc_venturi 0 101325 (12 / 10) (14 / 10) (1 / 10) (5 / 100) (98 / 100) = Inr 0"
  using calc_venturi_zero_dp [of 101325 "14 / 10" "5 / 100" "1 / 10" "12 / 10" "98 / 100"]
  by simp



subsection \<open>The Venturi model: variation with the differential pressure\<close>
































subsection \<open>The command line: the printed result\<close>










lemmas cli_eval =
  parse_args_def parse_known_args_sub_def parse_optional_def get_option_tuples_def
  partition_eq_def startswith_def negative_number_def is_digit_def help_action_def
  top_options_def venturi_options_def simplified_options_def required_options_def
  subparser_def option_string_of_def Let_def

lemmas float_eval = float_of_decimal_def digits_value_def is_digit_def Let_def

lemma fd1: "float_of_decimal ''1'' = Some 1" "float_of_decimal ''4'' = Some 4"
  "float_of_decimal ''9'' = Some 9" "float_of_decimal ''2'' = Some 2"
  "float_of_decimal ''0'' = Some 0"
  by (simp_all add: float_eval)

lemma ex1: "parse_args float_of_decimal
    [''simplified'', ''--dp'', ''1'', ''--dp'', ''4'', ''--rho'', ''9'', ''--Cv'', ''2'']
  = Inr \<lparr>command = ''simplified'', attrs = [''dp'' \<mapsto> 4, ''rho'' \<mapsto> 9, ''Cv'' \<mapsto> 2]\<rparr>"
  by (simp add: cli_eval fd1)












end
